theory Spec2Isabelle
  imports Complex_Main
begin

section \<open>Python values, failures and the validation layer (utils/validators.py)\<close>

text \<open>
  A Python \<open>str\<close> is a sequence of Unicode code points; it is modelled as a list of
  code points, so that \<open>length\<close> counts what Python's \<open>len\<close> counts. A literal is
  written \<open>map of_char ''...''\<close>.
\<close>

type_synonym pystr = "nat list"

text \<open>
  The dynamically typed arguments of the validators. An identifier is \<open>None\<close> or a
  Python int (unbounded), a text field is \<open>None\<close> or a \<open>str\<close>; both are seen by
  \<open>validate_required\<close> as a \<open>pyval\<close>.
\<close>

datatype pyval = PNone | PInt int | PStr pystr

text \<open>
  A numeric argument (quantity, price, cost) is \<open>None\<close>, a Python int or a Python float,
  as the views pass them (spin-box values). A float is modelled by the exact rational it
  denotes: the rounding of IEEE doubles, infinities and NaN are outside the model.
\<close>

datatype pynum = NoneV | IntV int | FloatV rat

definition of_id :: "int option \<Rightarrow> pyval" where
  "of_id i = (case i of None \<Rightarrow> PNone | Some n \<Rightarrow> PInt n)"

definition of_text :: "pystr option \<Rightarrow> pyval" where
  "of_text t = (case t of None \<Rightarrow> PNone | Some s \<Rightarrow> PStr s)"

datatype field =
    Customer_ID | Product_ID | Sale_ID | Nom_du_client | Nom_du_produit | Product_category
  | Product_ID_for_purchase | Purchase_quantity | Cost_per_unit
  | Product_ID_in_sale_item | Quantity_in_sale_item | Price_in_sale_item | Total_sale_amount
  | Prix_d_achat | Prix_de_vente | Quantite

text \<open>The messages of \<open>ValidationError\<close>, one constructor for each message of the source.\<close>

datatype validation_failure =
    Est_requis field                      \<comment> \<open>"<field> est requis."\<close>
  | Doit_etre_superieur field rat         \<comment> \<open>"<field> doit etre superieur ou egal a <min>."\<close>
  | Doit_etre_inferieur field rat         \<comment> \<open>"<field> doit etre inferieur ou egal a <max>."\<close>
  | Doit_etre_numerique field             \<comment> \<open>"<field> doit etre une valeur numerique."\<close>
  | Doit_etre_entier field                \<comment> \<open>"<field> doit etre un nombre entier."\<close>
  | Format_email_invalide                 \<comment> \<open>"Format d'email invalide."\<close>
  | Format_telephone_invalide             \<comment> \<open>"Format de numero de telephone invalide."\<close>
  | No_items                              \<comment> \<open>"Cannot record a sale with no items."\<close>

text \<open>The constraint named in the message of an \<open>sqlite3.IntegrityError\<close>.\<close>

datatype constraint = UNIQUE_constraint | FOREIGN_KEY_constraint | CHECK_constraint | NOT_NULL_constraint

text \<open>
  What the driver raises: \<open>sqlite3.IntegrityError\<close>, another \<open>sqlite3.Error\<close>
  (here only SQLITE_FULL, when AUTOINCREMENT has no row id left), and the \<open>OverflowError\<close>
  of binding a Python int outside the 64-bit range of an SQLite INTEGER.
\<close>

datatype driver_error = IntegrityError constraint | OtherSqliteError | OverflowError

text \<open>The messages of \<open>DatabaseError\<close>.\<close>

datatype database_failure =
    Existe_deja                           \<comment> \<open>"Cette entree existe deja dans la base de donnees."\<close>
  | Reference_ailleurs                    \<comment> \<open>"Impossible de supprimer cet element car il est reference ailleurs."\<close>
  | Contraintes_non_respectees            \<comment> \<open>"Les valeurs entrees ne respectent pas les contraintes ..."\<close>
  | Erreur_d_integrite constraint         \<comment> \<open>"Erreur d'integrite de la base de donnees: ..."\<close>
  | Erreur_de_base_de_donnees             \<comment> \<open>"Erreur de base de donnees: ..."\<close>
  | Customer_not_found_for_update int     \<comment> \<open>"Customer with ID <id> not found for update."\<close>
  | Product_not_found_for_update int      \<comment> \<open>"Product with ID <id> not found for update."\<close>
  | Failed_to_get_sale_id                 \<comment> \<open>"Failed to get sale_id after Sales insert."\<close>
  | Sale_recording_failed driver_error    \<comment> \<open>"Sale recording failed: <e>"\<close>
  | Failed_to_delete_all_data             \<comment> \<open>"Failed to delete all data: <e>"\<close>

text \<open>Every exception a data-access function can end with.\<close>

datatype exn = ValidationError validation_failure | DatabaseError database_failure | Driver driver_error

subsection \<open>Whitespace and \<open>str.strip\<close>\<close>

text \<open>
  \<open>Py_UNICODE_ISSPACE\<close>: the code points that \<open>str.strip()\<close> strips and that the
  class \<open>\s\<close> of a \<open>str\<close> pattern matches.
\<close>

definition is_space :: "nat \<Rightarrow> bool" where
  "is_space c \<longleftrightarrow>
     (9 \<le> c \<and> c \<le> 13) \<or> (28 \<le> c \<and> c \<le> 32) \<or> c = 133 \<or> c = 160 \<or> c = 5760
     \<or> (8192 \<le> c \<and> c \<le> 8202) \<or> c = 8232 \<or> c = 8233 \<or> c = 8239 \<or> c = 8287 \<or> c = 12288"

definition strip :: "pystr \<Rightarrow> pystr" where
  "strip s = rev (dropWhile is_space (rev (dropWhile is_space s)))"

subsection \<open>\<open>validate_required\<close>\<close>

text \<open>\<open>not value\<close>: None, zero and the empty string are false.\<close>

fun falsy :: "pyval \<Rightarrow> bool" where
  "falsy PNone = True"
| "falsy (PInt i) = (i = 0)"
| "falsy (PStr s) = (s = [])"

fun blank_str :: "pyval \<Rightarrow> bool" where
  "blank_str (PStr s) = (strip s = [])"
| "blank_str _ = False"

definition validate_required :: "pyval \<Rightarrow> field \<Rightarrow> exn + pyval" where
  "validate_required v field_name =
     (if falsy v \<or> blank_str v then Inl (ValidationError (Est_requis field_name)) else Inr v)"

subsection \<open>\<open>validate_numeric\<close> and \<open>validate_integer\<close>\<close>

text \<open>
  \<open>float(value)\<close>: \<open>None\<close> raises TypeError, which both validators turn into their
  validation failure.
\<close>

fun py_float :: "pynum \<Rightarrow> rat option" where
  "py_float NoneV = None"
| "py_float (IntV i) = Some (of_int i)"
| "py_float (FloatV q) = Some q"

definition validate_numeric :: "pynum \<Rightarrow> field \<Rightarrow> rat option \<Rightarrow> rat option \<Rightarrow> exn + rat" where
  "validate_numeric v field_name min_value max_value =
     (case py_float v of
        None \<Rightarrow> Inl (ValidationError (Doit_etre_numerique field_name))
      | Some num_value \<Rightarrow>
          if min_value \<noteq> None \<and> num_value < the min_value
          then Inl (ValidationError (Doit_etre_superieur field_name (the min_value)))
          else if max_value \<noteq> None \<and> num_value > the max_value
          then Inl (ValidationError (Doit_etre_inferieur field_name (the max_value)))
          else Inr num_value)"

text \<open>\<open>int(float_value)\<close> truncates towards zero.\<close>

definition py_int :: "rat \<Rightarrow> int" where
  "py_int q = (if 0 \<le> q then \<lfloor>q\<rfloor> else \<lceil>q\<rceil>)"

definition validate_integer :: "pynum \<Rightarrow> field \<Rightarrow> int option \<Rightarrow> int option \<Rightarrow> exn + int" where
  "validate_integer v field_name min_value max_value =
     (case py_float v of
        None \<Rightarrow> Inl (ValidationError (Doit_etre_entier field_name))
      | Some float_value \<Rightarrow>
          let int_value = py_int float_value in
          if float_value \<noteq> of_int int_value
          then Inl (ValidationError (Doit_etre_entier field_name))
          else if min_value \<noteq> None \<and> int_value < the min_value
          then Inl (ValidationError (Doit_etre_superieur field_name (of_int (the min_value))))
          else if max_value \<noteq> None \<and> int_value > the max_value
          then Inl (ValidationError (Doit_etre_inferieur field_name (of_int (the max_value))))
          else Inr int_value)"

subsection \<open>\<open>validate_email\<close> and \<open>validate_phone\<close>\<close>

definition is_digit :: "nat \<Rightarrow> bool" where
  "is_digit c \<longleftrightarrow> 48 \<le> c \<and> c \<le> 57"

definition is_alpha :: "nat \<Rightarrow> bool" where
  "is_alpha c \<longleftrightarrow> (97 \<le> c \<and> c \<le> 122) \<or> (65 \<le> c \<and> c \<le> 90)"

text \<open>
  \<open>$\<close> without MULTILINE matches at the end of the string and also just before a
  newline that ends the string.
\<close>

definition at_end :: "pystr \<Rightarrow> bool" where
  "at_end r \<longleftrightarrow> r = [] \<or> r = [10]"

text \<open>
  \<open>[a-zA-Z0-9._%+-]\<close> and \<open>[a-zA-Z0-9.-]\<close>.
\<close>

definition is_local_char :: "nat \<Rightarrow> bool" where
  "is_local_char c \<longleftrightarrow> is_alpha c \<or> is_digit c \<or> c \<in> {46, 95, 37, 43, 45}"

definition is_domain_char :: "nat \<Rightarrow> bool" where
  "is_domain_char c \<longleftrightarrow> is_alpha c \<or> is_digit c \<or> c \<in> {46, 45}"

text \<open>
  \<open>^[a-zA-Z0-9._%+-]+@[a-zA-Z0-9.-]+\.[a-zA-Z]{2,}$\<close> with \<open>match\<close>: some split of the
  string into a local part of length \<open>i\<close>, the \<open>@\<close>, a domain of length \<open>j\<close>, the dot and
  a top-level part of length \<open>k\<close>, the rest being what \<open>$\<close> allows.
\<close>

definition email_pattern_match :: "pystr \<Rightarrow> bool" where
  "email_pattern_match s =
     list_ex (\<lambda>i. list_ex (\<lambda>j. list_ex (\<lambda>k.
         1 \<le> i \<and> list_all is_local_char (take i s)
       \<and> take 1 (drop i s) = [64]
       \<and> 1 \<le> j \<and> list_all is_domain_char (take j (drop (i + 1) s))
       \<and> take 1 (drop (i + 1 + j) s) = [46]
       \<and> 2 \<le> k \<and> k \<le> length (drop (i + 2 + j) s)
       \<and> list_all is_alpha (take k (drop (i + 2 + j) s))
       \<and> at_end (drop (i + 2 + j + k) s))
       [0..<Suc (length s)]) [0..<Suc (length s)]) [0..<Suc (length s)]"

definition validate_email :: "pystr option \<Rightarrow> exn + pystr option" where
  "validate_email email =
     (case email of
        None \<Rightarrow> Inr email
      | Some s \<Rightarrow>
          if s = [] \<or> strip s = [] then Inr email
          else if \<not> email_pattern_match s then Inl (ValidationError Format_email_invalide)
          else Inr email)"

text \<open>\<open>re.sub(r"[\s\-\(\)]", "", phone)\<close>: every whitespace, hyphen and parenthesis goes.\<close>

definition is_separator :: "nat \<Rightarrow> bool" where
  "is_separator c \<longleftrightarrow> is_space c \<or> c = 45 \<or> c = 40 \<or> c = 41"

definition clean_phone :: "pystr \<Rightarrow> pystr" where
  "clean_phone phone = filter (\<lambda>c. \<not> is_separator c) phone"

text \<open>
  \<open>[0-9]{8,15}$\<close>: some number \<open>n\<close> of digits between 8 and 15, then what \<open>$\<close> allows.
\<close>

definition digits_then_end :: "pystr \<Rightarrow> bool" where
  "digits_then_end r =
     list_ex (\<lambda>n. n \<le> length r \<and> list_all is_digit (take n r) \<and> at_end (drop n r)) [8..<16]"

text \<open>\<open>^\+?[0-9]{8,15}$\<close> with \<open>match\<close>: the plus sign is taken or not.\<close>

definition phone_pattern_match :: "pystr \<Rightarrow> bool" where
  "phone_pattern_match s \<longleftrightarrow>
     (case s of [] \<Rightarrow> False | c # r \<Rightarrow> c = 43 \<and> digits_then_end r) \<or> digits_then_end s"

definition validate_phone :: "pystr option \<Rightarrow> exn + pystr option" where
  "validate_phone phone =
     (case phone of
        None \<Rightarrow> Inr phone
      | Some s \<Rightarrow>
          if s = [] \<or> strip s = [] then Inr phone
          else if \<not> phone_pattern_match (clean_phone s)
          then Inl (ValidationError Format_telephone_invalide)
          else Inr phone)"

section \<open>The schema and the storage engine (database/database.py, \<open>initialize_database\<close>)\<close>

text \<open>
  One record for each table of \<open>initialize_database\<close>, one field for each column. A
  table is the list of its rows in insertion order. Numeric columns hold exact
  rationals: an SQLite INTEGER column keeps a value that is not integral as it is.
\<close>

record customer =
  c_id :: int
  c_name :: pystr
  c_address :: "pystr option"
  c_phone :: "pystr option"
  c_email :: "pystr option"

record product =
  p_id :: int
  p_name :: pystr
  p_description :: "pystr option"
  p_category :: "pystr option"
  p_purchase_price :: rat
  p_selling_price :: rat
  quantity_in_stock :: rat

record purchase =
  pu_id :: int
  pu_product_id :: int
  pu_quantity :: rat
  pu_purchase_date :: pystr
  pu_cost_per_unit :: rat
  pu_supplier :: "pystr option"

record sale =
  s_id :: int
  s_customer_id :: "int option"
  s_sale_date :: pystr
  s_total_amount :: rat

record sale_item =
  si_id :: int
  si_sale_id :: int
  si_product_id :: int
  si_quantity :: rat
  si_price_at_sale :: rat

text \<open>
  The five tables, and for each the largest row id AUTOINCREMENT has given out (the
  table's row of \<open>sqlite_sequence\<close>).
\<close>

record database =
  Customers :: "customer list"
  Products :: "product list"
  Purchases :: "purchase list"
  Sales :: "sale list"
  SaleItems :: "sale_item list"
  seq_Customers :: int
  seq_Products :: int
  seq_Purchases :: int
  seq_Sales :: int
  seq_SaleItems :: int

text \<open>The database a first run of \<open>initialize_database\<close> creates: the empty tables.\<close>

definition empty_database :: database where
  "empty_database =
     \<lparr>Customers = [], Products = [], Purchases = [], Sales = [], SaleItems = [],
      seq_Customers = 0, seq_Products = 0, seq_Purchases = 0, seq_Sales = 0, seq_SaleItems = 0\<rparr>"

text \<open>
  A Python int is bound to a statement as a 64-bit SQLite INTEGER; outside that range
  the driver raises \<open>OverflowError\<close>.
\<close>

definition bindable :: "int \<Rightarrow> bool" where
  "bindable i \<longleftrightarrow> - (2 ^ 63) \<le> i \<and> i < 2 ^ 63"

definition bindable_id :: "int option \<Rightarrow> bool" where
  "bindable_id i = (case i of None \<Rightarrow> True | Some n \<Rightarrow> bindable n)"

fun bindable_num :: "pynum \<Rightarrow> bool" where
  "bindable_num NoneV = True"
| "bindable_num (IntV i) = bindable i"
| "bindable_num (FloatV q) = True"

text \<open>The SQL value of a bound number; \<open>None\<close> is NULL.\<close>

fun sql_value :: "pynum \<Rightarrow> rat option" where
  "sql_value NoneV = None"
| "sql_value (IntV i) = Some (of_int i)"
| "sql_value (FloatV q) = Some q"

text \<open>
  \<open>INTEGER PRIMARY KEY AUTOINCREMENT\<close>: the new row id is one more than the largest
  ever given out; when that was the largest 64-bit integer the insert fails
  (SQLITE_FULL).
\<close>

definition next_rowid :: "int \<Rightarrow> driver_error + int" where
  "next_rowid seq = (if seq \<ge> 2 ^ 63 - 1 then Inl OtherSqliteError else Inr (seq + 1))"

subsection \<open>Customers\<close>

text \<open>
  \<open>phone TEXT UNIQUE\<close>, \<open>email TEXT UNIQUE\<close>: a value that is not NULL may not occur in
  another row. \<open>skip\<close> is the id of the row being updated (\<open>None\<close> on insert).
\<close>

definition phone_taken :: "database \<Rightarrow> int option \<Rightarrow> pystr option \<Rightarrow> bool" where
  "phone_taken db skip phone \<longleftrightarrow>
     phone \<noteq> None \<and> (\<exists>c \<in> set (Customers db). Some (c_id c) \<noteq> skip \<and> c_phone c = phone)"

definition email_taken :: "database \<Rightarrow> int option \<Rightarrow> pystr option \<Rightarrow> bool" where
  "email_taken db skip email \<longleftrightarrow>
     email \<noteq> None \<and> (\<exists>c \<in> set (Customers db). Some (c_id c) \<noteq> skip \<and> c_email c = email)"

text \<open>\<open>INSERT INTO Customers (name, address, phone, email) VALUES (?, ?, ?, ?)\<close>; returns the new row id.\<close>

definition sql_insert_customer ::
  "database \<Rightarrow> pystr option \<Rightarrow> pystr option \<Rightarrow> pystr option \<Rightarrow> pystr option \<Rightarrow> driver_error + database \<times> int" where
  "sql_insert_customer db name address phone email =
     (case name of
        None \<Rightarrow> Inl (IntegrityError NOT_NULL_constraint)
      | Some n \<Rightarrow>
          if phone_taken db None phone \<or> email_taken db None email
          then Inl (IntegrityError UNIQUE_constraint)
          else (case next_rowid (seq_Customers db) of
                  Inl e \<Rightarrow> Inl e
                | Inr rowid \<Rightarrow>
                    Inr (db\<lparr>Customers := Customers db @
                               [\<lparr>c_id = rowid, c_name = n, c_address = address, c_phone = phone, c_email = email\<rparr>],
                             seq_Customers := rowid\<rparr>, rowid)))"

text \<open>
  \<open>UPDATE Customers SET name = ?, address = ?, phone = ?, email = ? WHERE id = ?\<close>;
  returns the row count.
\<close>

definition sql_update_customer ::
  "database \<Rightarrow> pystr option \<Rightarrow> pystr option \<Rightarrow> pystr option \<Rightarrow> pystr option \<Rightarrow> int option
     \<Rightarrow> driver_error + database \<times> nat" where
  "sql_update_customer db name address phone email customer_id =
     (if \<not> bindable_id customer_id then Inl OverflowError
      else let hits = filter (\<lambda>c. Some (c_id c) = customer_id) (Customers db) in
        if hits = [] then Inr (db, 0)
        else (case name of
                None \<Rightarrow> Inl (IntegrityError NOT_NULL_constraint)
              | Some n \<Rightarrow>
                  if phone_taken db customer_id phone \<or> email_taken db customer_id email
                  then Inl (IntegrityError UNIQUE_constraint)
                  else Inr (db\<lparr>Customers :=
                              map (\<lambda>c. if Some (c_id c) = customer_id
                                        then c\<lparr>c_name := n, c_address := address, c_phone := phone, c_email := email\<rparr>
                                        else c) (Customers db)\<rparr>,
                            length hits)))"

text \<open>
  \<open>DELETE FROM Customers WHERE id = ?\<close>; \<open>ON DELETE SET NULL\<close> detaches the
  customer's sales.
\<close>

definition sql_delete_customer :: "database \<Rightarrow> int option \<Rightarrow> driver_error + database \<times> nat" where
  "sql_delete_customer db customer_id =
     (if \<not> bindable_id customer_id then Inl OverflowError
      else let hits = filter (\<lambda>c. Some (c_id c) = customer_id) (Customers db) in
        if hits = [] then Inr (db, 0)
        else Inr (db\<lparr>Customers := filter (\<lambda>c. Some (c_id c) \<noteq> customer_id) (Customers db),
                     Sales := map (\<lambda>s. if s_customer_id s = customer_id then s\<lparr>s_customer_id := None\<rparr> else s)
                                  (Sales db)\<rparr>,
                  length hits))"

subsection \<open>Products\<close>

definition name_taken :: "database \<Rightarrow> int option \<Rightarrow> pystr \<Rightarrow> bool" where
  "name_taken db skip name \<longleftrightarrow> (\<exists>p \<in> set (Products db). Some (p_id p) \<noteq> skip \<and> p_name p = name)"

text \<open>
  \<open>INSERT INTO Products (name, description, category, purchase_price, selling_price,
  quantity_in_stock) VALUES (?, ?, ?, ?, ?, ?)\<close> with the three CHECK constraints of the
  table; the stock is the Python int \<open>validate_integer\<close> returned, or \<open>None\<close>.
\<close>

definition sql_insert_product ::
  "database \<Rightarrow> pystr option \<Rightarrow> pystr option \<Rightarrow> pystr option \<Rightarrow> rat \<Rightarrow> rat \<Rightarrow> int option
     \<Rightarrow> driver_error + database \<times> int" where
  "sql_insert_product db name description category purchase_price selling_price initial_stock =
     (if \<not> bindable_id initial_stock then Inl OverflowError
      else case (name, initial_stock) of
        (Some n, Some stock) \<Rightarrow>
          if \<not> (purchase_price \<ge> 0 \<and> selling_price \<ge> 0 \<and> of_int stock \<ge> (0::rat))
          then Inl (IntegrityError CHECK_constraint)
          else if name_taken db None n then Inl (IntegrityError UNIQUE_constraint)
          else (case next_rowid (seq_Products db) of
                  Inl e \<Rightarrow> Inl e
                | Inr rowid \<Rightarrow>
                    Inr (db\<lparr>Products := Products db @
                               [\<lparr>p_id = rowid, p_name = n, p_description = description, p_category = category,
                                 p_purchase_price = purchase_price, p_selling_price = selling_price,
                                 quantity_in_stock = of_int stock\<rparr>],
                             seq_Products := rowid\<rparr>, rowid))
      | _ \<Rightarrow> Inl (IntegrityError NOT_NULL_constraint))"

text \<open>
  \<open>UPDATE Products SET name = ?, description = ?, category = ?, purchase_price = ?,
  selling_price = ? WHERE id = ?\<close>.
\<close>

definition sql_update_product ::
  "database \<Rightarrow> pystr option \<Rightarrow> pystr option \<Rightarrow> pystr option \<Rightarrow> rat \<Rightarrow> rat \<Rightarrow> int option
     \<Rightarrow> driver_error + database \<times> nat" where
  "sql_update_product db name description category purchase_price selling_price product_id =
     (if \<not> bindable_id product_id then Inl OverflowError
      else let hits = filter (\<lambda>p. Some (p_id p) = product_id) (Products db) in
        if hits = [] then Inr (db, 0)
        else (case name of
                None \<Rightarrow> Inl (IntegrityError NOT_NULL_constraint)
              | Some n \<Rightarrow>
                  if \<not> (purchase_price \<ge> 0 \<and> selling_price \<ge> 0)
                  then Inl (IntegrityError CHECK_constraint)
                  else if name_taken db product_id n then Inl (IntegrityError UNIQUE_constraint)
                  else Inr (db\<lparr>Products :=
                              map (\<lambda>p. if Some (p_id p) = product_id
                                        then p\<lparr>p_name := n, p_description := description, p_category := category,
                                               p_purchase_price := purchase_price, p_selling_price := selling_price\<rparr>
                                        else p) (Products db)\<rparr>,
                            length hits)))"

text \<open>
  \<open>DELETE FROM Products WHERE id = ?\<close>. \<open>SaleItems.product_id ... ON DELETE RESTRICT\<close>
  refuses the delete while a sale item refers to the product (foreign keys are enforced:
  \<open>get_db_connection\<close> sets \<open>PRAGMA foreign_keys = ON\<close>); \<open>Purchases.product_id ... ON
  DELETE CASCADE\<close> deletes the product's purchases with it.
\<close>

definition sql_delete_product :: "database \<Rightarrow> int option \<Rightarrow> driver_error + database \<times> nat" where
  "sql_delete_product db product_id =
     (if \<not> bindable_id product_id then Inl OverflowError
      else let hits = filter (\<lambda>p. Some (p_id p) = product_id) (Products db) in
        if hits = [] then Inr (db, 0)
        else if \<exists>si \<in> set (SaleItems db). Some (si_product_id si) = product_id
        then Inl (IntegrityError FOREIGN_KEY_constraint)
        else Inr (db\<lparr>Products := filter (\<lambda>p. Some (p_id p) \<noteq> product_id) (Products db),
                     Purchases := filter (\<lambda>pu. Some (pu_product_id pu) \<noteq> product_id) (Purchases db)\<rparr>,
                  length hits))"

text \<open>\<open>SELECT name, selling_price, quantity_in_stock FROM Products WHERE id = ?\<close> and \<open>fetchone\<close>.\<close>

definition sql_select_product_details ::
  "database \<Rightarrow> int option \<Rightarrow> driver_error + (pystr \<times> rat \<times> rat) option" where
  "sql_select_product_details db product_id =
     (if \<not> bindable_id product_id then Inl OverflowError
      else case filter (\<lambda>p. Some (p_id p) = product_id) (Products db) of
             [] \<Rightarrow> Inr None
           | p # _ \<Rightarrow> Inr (Some (p_name p, p_selling_price p, quantity_in_stock p)))"

subsection \<open>The stock triggers\<close>

text \<open>
  \<open>UPDATE Products SET quantity_in_stock = quantity_in_stock + delta WHERE id = pid\<close>,
  the body of both triggers (\<open>increase_stock_on_purchase\<close> with \<open>delta = NEW.quantity\<close>,
  \<open>decrease_stock_on_sale\<close> with \<open>delta = - NEW.quantity\<close>). The update is checked
  against \<open>CHECK(quantity_in_stock >= 0)\<close>; a violation aborts the statement that fired
  the trigger.
\<close>

definition adjust_stock :: "int \<Rightarrow> rat \<Rightarrow> product \<Rightarrow> product" where
  "adjust_stock pid delta p =
     (if p_id p = pid then p\<lparr>quantity_in_stock := quantity_in_stock p + delta\<rparr> else p)"

definition trigger_update_stock :: "database \<Rightarrow> int \<Rightarrow> rat \<Rightarrow> driver_error + database" where
  "trigger_update_stock db pid delta =
     (let products = map (adjust_stock pid delta) (Products db) in
      if \<exists>p \<in> set products. p_id p = pid \<and> \<not> quantity_in_stock p \<ge> 0
      then Inl (IntegrityError CHECK_constraint)
      else Inr (db\<lparr>Products := products\<rparr>))"

subsection \<open>Purchases, Sales, SaleItems\<close>

text \<open>
  \<open>INSERT INTO Purchases (product_id, quantity, purchase_date, cost_per_unit, supplier)
  VALUES (?, ?, ?, ?, ?)\<close>: the row's own constraints, then the trigger
  \<open>increase_stock_on_purchase\<close>, then the foreign key, which SQLite checks when the
  statement ends.
\<close>

definition sql_insert_purchase ::
  "database \<Rightarrow> int option \<Rightarrow> rat \<Rightarrow> pystr \<Rightarrow> rat \<Rightarrow> pystr option \<Rightarrow> driver_error + database \<times> int" where
  "sql_insert_purchase db product_id quantity purchase_date cost_per_unit supplier =
     (if \<not> bindable_id product_id then Inl OverflowError
      else case product_id of
        None \<Rightarrow> Inl (IntegrityError NOT_NULL_constraint)
      | Some pid \<Rightarrow>
          if \<not> (quantity > 0 \<and> cost_per_unit \<ge> 0) then Inl (IntegrityError CHECK_constraint)
          else (case next_rowid (seq_Purchases db) of
                  Inl e \<Rightarrow> Inl e
                | Inr rowid \<Rightarrow>
                    (case trigger_update_stock db pid quantity of
                       Inl e \<Rightarrow> Inl e
                     | Inr db' \<Rightarrow>
                         if \<not> (\<exists>p \<in> set (Products db). p_id p = pid)
                         then Inl (IntegrityError FOREIGN_KEY_constraint)
                         else Inr (db'\<lparr>Purchases := Purchases db @
                                         [\<lparr>pu_id = rowid, pu_product_id = pid, pu_quantity = quantity,
                                           pu_purchase_date = purchase_date, pu_cost_per_unit = cost_per_unit,
                                           pu_supplier = supplier\<rparr>],
                                       seq_Purchases := rowid\<rparr>, rowid))))"

text \<open>\<open>INSERT INTO Sales (customer_id, sale_date, total_amount) VALUES (?, ?, ?)\<close>.\<close>

definition sql_insert_sale ::
  "database \<Rightarrow> int option \<Rightarrow> pystr \<Rightarrow> rat \<Rightarrow> driver_error + database \<times> int" where
  "sql_insert_sale db customer_id sale_date total_amount =
     (if \<not> bindable_id customer_id then Inl OverflowError
      else if \<not> total_amount \<ge> 0 then Inl (IntegrityError CHECK_constraint)
      else (case next_rowid (seq_Sales db) of
              Inl e \<Rightarrow> Inl e
            | Inr rowid \<Rightarrow>
                if customer_id \<noteq> None \<and> \<not> (\<exists>c \<in> set (Customers db). Some (c_id c) = customer_id)
                then Inl (IntegrityError FOREIGN_KEY_constraint)
                else Inr (db\<lparr>Sales := Sales db @
                               [\<lparr>s_id = rowid, s_customer_id = customer_id, s_sale_date = sale_date,
                                 s_total_amount = total_amount\<rparr>],
                             seq_Sales := rowid\<rparr>, rowid)))"

text \<open>
  \<open>INSERT INTO SaleItems (sale_id, product_id, quantity, price_at_sale) VALUES (?, ?, ?, ?)\<close>
  with the values of the caller's line item as they are: the row's own constraints, then
  the trigger \<open>decrease_stock_on_sale\<close>, then the two foreign keys.
\<close>

definition sql_insert_sale_item ::
  "database \<Rightarrow> int \<Rightarrow> int option \<Rightarrow> pynum \<Rightarrow> pynum \<Rightarrow> driver_error + database" where
  "sql_insert_sale_item db sale_id product_id quantity price =
     (if \<not> (bindable sale_id \<and> bindable_id product_id \<and> bindable_num quantity \<and> bindable_num price)
      then Inl OverflowError
      else case (product_id, sql_value quantity, sql_value price) of
        (Some pid, Some q, Some pr) \<Rightarrow>
          if \<not> (q > 0 \<and> pr \<ge> 0) then Inl (IntegrityError CHECK_constraint)
          else (case next_rowid (seq_SaleItems db) of
                  Inl e \<Rightarrow> Inl e
                | Inr rowid \<Rightarrow>
                    (case trigger_update_stock db pid (- q) of
                       Inl e \<Rightarrow> Inl e
                     | Inr db' \<Rightarrow>
                         if \<not> ((\<exists>s \<in> set (Sales db). s_id s = sale_id) \<and> (\<exists>p \<in> set (Products db). p_id p = pid))
                         then Inl (IntegrityError FOREIGN_KEY_constraint)
                         else Inr (db'\<lparr>SaleItems := SaleItems db @
                                         [\<lparr>si_id = rowid, si_sale_id = sale_id, si_product_id = pid,
                                           si_quantity = q, si_price_at_sale = pr\<rparr>],
                                       seq_SaleItems := rowid\<rparr>)))
      | _ \<Rightarrow> Inl (IntegrityError NOT_NULL_constraint))"

section \<open>The data-access layer (database/database.py)\<close>

text \<open>
  What a call can change: the committed content of the database file, and the
  connections that have been opened and not closed.
\<close>

record world =
  store :: database
  open_connections :: nat

text \<open>
  \<open>get_db_connection\<close> opens a connection; \<open>conn.close()\<close> releases one. Failures of
  the environment (an unreadable file, a locked database) are outside the model.
\<close>

definition get_db_connection :: "world \<Rightarrow> world" where
  "get_db_connection w = w\<lparr>open_connections := Suc (open_connections w)\<rparr>"

definition close_connection :: "world \<Rightarrow> world" where
  "close_connection w = w\<lparr>open_connections := open_connections w - 1\<rparr>"

subsection \<open>\<open>handle_db_error\<close> (utils/error_handler.py)\<close>

fun translate_error :: "exn \<Rightarrow> exn" where
  "translate_error (Driver (IntegrityError UNIQUE_constraint)) = DatabaseError Existe_deja"
| "translate_error (Driver (IntegrityError FOREIGN_KEY_constraint)) = DatabaseError Reference_ailleurs"
| "translate_error (Driver (IntegrityError CHECK_constraint)) = DatabaseError Contraintes_non_respectees"
| "translate_error (Driver (IntegrityError c)) = DatabaseError (Erreur_d_integrite c)"
| "translate_error (Driver OtherSqliteError) = DatabaseError Erreur_de_base_de_donnees"
| "translate_error e = e"

definition handle_db_error :: "(world \<Rightarrow> (exn + 'a) \<times> world) \<Rightarrow> world \<Rightarrow> (exn + 'a) \<times> world" where
  "handle_db_error func w =
     (case func w of
        (Inl e, w') \<Rightarrow> (Inl (translate_error e), w')
      | (Inr r, w') \<Rightarrow> (Inr r, w'))"

subsection \<open>The composite validators (utils/validators.py)\<close>

definition validate_product_data ::
  "pystr option \<Rightarrow> pynum \<Rightarrow> pynum \<Rightarrow> pynum \<Rightarrow> exn + pystr option \<times> rat \<times> rat \<times> int option" where
  "validate_product_data name purchase_price selling_price quantity =
     (case validate_required (of_text name) Nom_du_produit of
        Inl e \<Rightarrow> Inl e
      | Inr _ \<Rightarrow>
     (case validate_numeric purchase_price Prix_d_achat (Some 0) None of
        Inl e \<Rightarrow> Inl e
      | Inr purchase_price' \<Rightarrow>
     (case validate_numeric selling_price Prix_de_vente (Some 0) None of
        Inl e \<Rightarrow> Inl e
      | Inr selling_price' \<Rightarrow>
          if quantity \<noteq> NoneV
          then (case validate_integer quantity Quantite (Some 0) None of
                  Inl e \<Rightarrow> Inl e
                | Inr quantity' \<Rightarrow> Inr (name, purchase_price', selling_price', Some quantity'))
          else Inr (name, purchase_price', selling_price', None))))"

text \<open>\<open>if phone:\<close> and \<open>if email:\<close> skip \<open>None\<close> and the empty string.\<close>

definition validate_customer_data ::
  "pystr option \<Rightarrow> pystr option \<Rightarrow> pystr option \<Rightarrow> exn + pystr option \<times> pystr option \<times> pystr option" where
  "validate_customer_data name phone email =
     (case validate_required (of_text name) Nom_du_client of
        Inl e \<Rightarrow> Inl e
      | Inr _ \<Rightarrow>
     (case (if \<not> falsy (of_text phone) then validate_phone phone else Inr phone) of
        Inl e \<Rightarrow> Inl e
      | Inr phone' \<Rightarrow>
     (case (if \<not> falsy (of_text email) then validate_email email else Inr email) of
        Inl e \<Rightarrow> Inl e
      | Inr email' \<Rightarrow> Inr (name, phone', email'))))"

subsection \<open>Customers\<close>

text \<open>
  Each function is written without its decorator as \<open>..._body\<close>; the function itself is
  the body under \<open>handle_db_error\<close>. A body validates, opens a connection, runs its
  statement and commits; its \<open>finally\<close> closes the connection on both paths.
\<close>

definition add_customer_body ::
  "pystr option \<Rightarrow> pystr option \<Rightarrow> pystr option \<Rightarrow> pystr option \<Rightarrow> world \<Rightarrow> (exn + int) \<times> world" where
  "add_customer_body name phone email address w =
     (case validate_customer_data name phone email of
        Inl e \<Rightarrow> (Inl e, w)
      | Inr (name', phone', email') \<Rightarrow>
          let w1 = get_db_connection w in
          (case sql_insert_customer (store w1) name' address phone' email' of
             Inl e \<Rightarrow> (Inl (Driver e), close_connection w1)
           | Inr (db, customer_id) \<Rightarrow> (Inr customer_id, close_connection (w1\<lparr>store := db\<rparr>))))"

definition add_customer ::
  "pystr option \<Rightarrow> pystr option \<Rightarrow> pystr option \<Rightarrow> pystr option \<Rightarrow> world \<Rightarrow> (exn + int) \<times> world" where
  "add_customer name phone email address = handle_db_error (add_customer_body name phone email address)"

definition update_customer_body ::
  "int option \<Rightarrow> pystr option \<Rightarrow> pystr option \<Rightarrow> pystr option \<Rightarrow> pystr option \<Rightarrow> world
     \<Rightarrow> (exn + bool) \<times> world" where
  "update_customer_body customer_id name phone email address w =
     (case validate_required (of_id customer_id) Customer_ID of
        Inl e \<Rightarrow> (Inl e, w)
      | Inr _ \<Rightarrow>
     (case validate_customer_data name phone email of
        Inl e \<Rightarrow> (Inl e, w)
      | Inr (name', phone', email') \<Rightarrow>
          let w1 = get_db_connection w in
          (case sql_update_customer (store w1) name' address phone' email' customer_id of
             Inl e \<Rightarrow> (Inl (Driver e), close_connection w1)
           | Inr (db, rowcount) \<Rightarrow>
               let w2 = w1\<lparr>store := db\<rparr> in
               if rowcount = 0
               then (Inl (DatabaseError (Customer_not_found_for_update (the customer_id))), close_connection w2)
               else (Inr True, close_connection w2))))"

definition update_customer ::
  "int option \<Rightarrow> pystr option \<Rightarrow> pystr option \<Rightarrow> pystr option \<Rightarrow> pystr option \<Rightarrow> world
     \<Rightarrow> (exn + bool) \<times> world" where
  "update_customer customer_id name phone email address =
     handle_db_error (update_customer_body customer_id name phone email address)"

definition delete_customer_body :: "int option \<Rightarrow> world \<Rightarrow> (exn + bool) \<times> world" where
  "delete_customer_body customer_id w =
     (case validate_required (of_id customer_id) Customer_ID of
        Inl e \<Rightarrow> (Inl e, w)
      | Inr _ \<Rightarrow>
          let w1 = get_db_connection w in
          (case sql_delete_customer (store w1) customer_id of
             Inl e \<Rightarrow> (Inl (Driver e), close_connection w1)
           | Inr (db, rowcount) \<Rightarrow>
               let w2 = w1\<lparr>store := db\<rparr> in
               if rowcount = 0 then (Inr False, close_connection w2)
               else (Inr True, close_connection w2)))"

definition delete_customer :: "int option \<Rightarrow> world \<Rightarrow> (exn + bool) \<times> world" where
  "delete_customer customer_id = handle_db_error (delete_customer_body customer_id)"

subsection \<open>Products\<close>

definition add_product_body ::
  "pystr option \<Rightarrow> pystr option \<Rightarrow> pystr option \<Rightarrow> pynum \<Rightarrow> pynum \<Rightarrow> pynum \<Rightarrow> world
     \<Rightarrow> (exn + int) \<times> world" where
  "add_product_body name description category purchase_price selling_price initial_stock w =
     (case validate_product_data name purchase_price selling_price initial_stock of
        Inl e \<Rightarrow> (Inl e, w)
      | Inr (name', purchase_price', selling_price', initial_stock') \<Rightarrow>
     (case validate_required (of_text category) Product_category of
        Inl e \<Rightarrow> (Inl e, w)
      | Inr _ \<Rightarrow>
          let w1 = get_db_connection w in
          (case sql_insert_product (store w1) name' description category purchase_price' selling_price'
                  initial_stock' of
             Inl e \<Rightarrow> (Inl (Driver e), close_connection w1)
           | Inr (db, product_id) \<Rightarrow> (Inr product_id, close_connection (w1\<lparr>store := db\<rparr>)))))"

definition add_product ::
  "pystr option \<Rightarrow> pystr option \<Rightarrow> pystr option \<Rightarrow> pynum \<Rightarrow> pynum \<Rightarrow> pynum \<Rightarrow> world
     \<Rightarrow> (exn + int) \<times> world" where
  "add_product name description category purchase_price selling_price initial_stock =
     handle_db_error (add_product_body name description category purchase_price selling_price initial_stock)"

definition update_product_body ::
  "int option \<Rightarrow> pystr option \<Rightarrow> pystr option \<Rightarrow> pystr option \<Rightarrow> pynum \<Rightarrow> pynum \<Rightarrow> world
     \<Rightarrow> (exn + bool) \<times> world" where
  "update_product_body product_id name description category purchase_price selling_price w =
     (case validate_required (of_id product_id) Product_ID of
        Inl e \<Rightarrow> (Inl e, w)
      | Inr _ \<Rightarrow>
     (case validate_product_data name purchase_price selling_price NoneV of
        Inl e \<Rightarrow> (Inl e, w)
      | Inr (name', purchase_price', selling_price', _) \<Rightarrow>
     (case validate_required (of_text category) Product_category of
        Inl e \<Rightarrow> (Inl e, w)
      | Inr _ \<Rightarrow>
          let w1 = get_db_connection w in
          (case sql_update_product (store w1) name' description category purchase_price' selling_price'
                  product_id of
             Inl e \<Rightarrow> (Inl (Driver e), close_connection w1)
           | Inr (db, rowcount) \<Rightarrow>
               let w2 = w1\<lparr>store := db\<rparr> in
               if rowcount = 0
               then (Inl (DatabaseError (Product_not_found_for_update (the product_id))), close_connection w2)
               else (Inr True, close_connection w2)))))"

definition update_product ::
  "int option \<Rightarrow> pystr option \<Rightarrow> pystr option \<Rightarrow> pystr option \<Rightarrow> pynum \<Rightarrow> pynum \<Rightarrow> world
     \<Rightarrow> (exn + bool) \<times> world" where
  "update_product product_id name description category purchase_price selling_price =
     handle_db_error (update_product_body product_id name description category purchase_price selling_price)"

definition delete_product_body :: "int option \<Rightarrow> world \<Rightarrow> (exn + bool) \<times> world" where
  "delete_product_body product_id w =
     (case validate_required (of_id product_id) Product_ID of
        Inl e \<Rightarrow> (Inl e, w)
      | Inr _ \<Rightarrow>
          let w1 = get_db_connection w in
          (case sql_delete_product (store w1) product_id of
             Inl e \<Rightarrow> (Inl (Driver e), close_connection w1)
           | Inr (db, rowcount) \<Rightarrow>
               let w2 = w1\<lparr>store := db\<rparr> in
               if rowcount = 0 then (Inr False, close_connection w2)
               else (Inr True, close_connection w2)))"

definition delete_product :: "int option \<Rightarrow> world \<Rightarrow> (exn + bool) \<times> world" where
  "delete_product product_id = handle_db_error (delete_product_body product_id)"

subsection \<open>Purchases\<close>

text \<open>
  \<open>now\<close> is what \<open>datetime.datetime.now().strftime(...)\<close> gives when no date is passed.
  The quantity inserted is the float \<open>validate_numeric\<close> returned.
\<close>

definition add_purchase_body ::
  "int option \<Rightarrow> pynum \<Rightarrow> pynum \<Rightarrow> pystr option \<Rightarrow> pystr option \<Rightarrow> pystr \<Rightarrow> world
     \<Rightarrow> (exn + int) \<times> world" where
  "add_purchase_body product_id quantity cost_per_unit supplier purchase_date_str now w =
     (case validate_required (of_id product_id) Product_ID_for_purchase of
        Inl e \<Rightarrow> (Inl e, w)
      | Inr _ \<Rightarrow>
     (case validate_numeric quantity Purchase_quantity (Some 1) None of
        Inl e \<Rightarrow> (Inl e, w)
      | Inr quantity' \<Rightarrow>
     (case validate_numeric cost_per_unit Cost_per_unit (Some 0) None of
        Inl e \<Rightarrow> (Inl e, w)
      | Inr cost_per_unit' \<Rightarrow>
          let purchase_date = (case purchase_date_str of None \<Rightarrow> now | Some d \<Rightarrow> d);
              w1 = get_db_connection w in
          (case sql_insert_purchase (store w1) product_id quantity' purchase_date cost_per_unit' supplier of
             Inl e \<Rightarrow> (Inl (Driver e), close_connection w1)
           | Inr (db, purchase_id) \<Rightarrow> (Inr purchase_id, close_connection (w1\<lparr>store := db\<rparr>))))))"

definition add_purchase ::
  "int option \<Rightarrow> pynum \<Rightarrow> pynum \<Rightarrow> pystr option \<Rightarrow> pystr option \<Rightarrow> pystr \<Rightarrow> world
     \<Rightarrow> (exn + int) \<times> world" where
  "add_purchase product_id quantity cost_per_unit supplier purchase_date_str now =
     handle_db_error (add_purchase_body product_id quantity cost_per_unit supplier purchase_date_str now)"

subsection \<open>Sales\<close>

text \<open>A line item: the dictionary \<open>{product_id, quantity, price_at_sale}\<close>; a missing key reads as \<open>None\<close>.\<close>

record line_item =
  item_product_id :: "int option"
  item_quantity :: pynum
  item_price_at_sale :: pynum

text \<open>The first loop of \<open>add_sale\<close>: each item is validated and its amount added to the total.\<close>

fun validate_sale_items :: "rat \<Rightarrow> line_item list \<Rightarrow> exn + rat" where
  "validate_sale_items total_amount [] = Inr total_amount"
| "validate_sale_items total_amount (item # items) =
     (case validate_required (of_id (item_product_id item)) Product_ID_in_sale_item of
        Inl e \<Rightarrow> Inl e
      | Inr _ \<Rightarrow>
     (case validate_numeric (item_quantity item) Quantity_in_sale_item (Some 1) None of
        Inl e \<Rightarrow> Inl e
      | Inr item_qty \<Rightarrow>
     (case validate_numeric (item_price_at_sale item) Price_in_sale_item (Some 0) None of
        Inl e \<Rightarrow> Inl e
      | Inr item_price \<Rightarrow> validate_sale_items (total_amount + item_qty * item_price) items)))"

text \<open>The second loop: one \<open>INSERT INTO SaleItems\<close> for each item, in the open transaction.\<close>

fun insert_sale_items :: "database \<Rightarrow> int \<Rightarrow> line_item list \<Rightarrow> driver_error + database" where
  "insert_sale_items tx sale_id [] = Inr tx"
| "insert_sale_items tx sale_id (item # items) =
     (case sql_insert_sale_item tx sale_id (item_product_id item) (item_quantity item) (item_price_at_sale item) of
        Inl e \<Rightarrow> Inl e
      | Inr tx' \<Rightarrow> insert_sale_items tx' sale_id items)"

text \<open>
  The \<open>try\<close> block of \<open>add_sale\<close> between \<open>BEGIN TRANSACTION\<close> and \<open>conn.commit()\<close>, with
  what its \<open>except\<close> clause re-raises: a \<open>DatabaseError\<close> as it is, anything else as
  "Sale recording failed". The result is the content of the transaction and the sale id.
\<close>

definition sale_transaction ::
  "database \<Rightarrow> line_item list \<Rightarrow> int option \<Rightarrow> pystr \<Rightarrow> rat \<Rightarrow> exn + database \<times> int" where
  "sale_transaction db sale_items customer_id sale_date total_amount =
     (case sql_insert_sale db customer_id sale_date total_amount of
        Inl e \<Rightarrow> Inl (DatabaseError (Sale_recording_failed e))
      | Inr (tx, sale_id) \<Rightarrow>
          if sale_id = 0 then Inl (DatabaseError Failed_to_get_sale_id)
          else (case insert_sale_items tx sale_id sale_items of
                  Inl e \<Rightarrow> Inl (DatabaseError (Sale_recording_failed e))
                | Inr tx' \<Rightarrow> Inr (tx', sale_id)))"

text \<open>
  \<open>add_sale\<close>: on an exception \<open>conn.rollback()\<close> drops the transaction, so the store
  stays as it was; \<open>conn.commit()\<close> makes the transaction the store.
\<close>

definition add_sale_body ::
  "line_item list \<Rightarrow> int option \<Rightarrow> pystr option \<Rightarrow> pystr \<Rightarrow> world \<Rightarrow> (exn + int) \<times> world" where
  "add_sale_body sale_items customer_id sale_date_str now w =
     (if sale_items = [] then (Inl (ValidationError No_items), w)
      else let sale_date = (case sale_date_str of None \<Rightarrow> now | Some d \<Rightarrow> d) in
     (case validate_sale_items 0 sale_items of
        Inl e \<Rightarrow> (Inl e, w)
      | Inr total_amount \<Rightarrow>
     (case validate_numeric (FloatV total_amount) Total_sale_amount (Some 0) None of
        Inl e \<Rightarrow> (Inl e, w)
      | Inr _ \<Rightarrow>
          let w1 = get_db_connection w in
          (case sale_transaction (store w1) sale_items customer_id sale_date total_amount of
             Inl e \<Rightarrow> (Inl e, close_connection w1)
           | Inr (tx, sale_id) \<Rightarrow> (Inr sale_id, close_connection (w1\<lparr>store := tx\<rparr>))))))"

definition add_sale ::
  "line_item list \<Rightarrow> int option \<Rightarrow> pystr option \<Rightarrow> pystr \<Rightarrow> world \<Rightarrow> (exn + int) \<times> world" where
  "add_sale sale_items customer_id sale_date_str now =
     handle_db_error (add_sale_body sale_items customer_id sale_date_str now)"

subsection \<open>\<open>get_product_details_for_sale\<close> and \<open>dangerously_delete_all_data\<close>\<close>

text \<open>
  \<open>get_product_details_for_sale\<close> has no \<open>finally\<close>: \<open>conn.close()\<close> is the statement
  after \<open>fetchone\<close>. An \<open>sqlite3.Error\<close> is caught and \<open>None\<close> returned; any other
  exception leaves the function. Neither path closes the connection.
\<close>

definition get_product_details_for_sale_body ::
  "int option \<Rightarrow> world \<Rightarrow> (exn + (pystr \<times> rat \<times> rat) option) \<times> world" where
  "get_product_details_for_sale_body product_id w =
     (let w1 = get_db_connection w in
      case sql_select_product_details (store w1) product_id of
        Inl e \<Rightarrow> if e = OverflowError then (Inl (Driver e), w1) else (Inr None, w1)
      | Inr result \<Rightarrow> (Inr result, close_connection w1))"

definition get_product_details_for_sale ::
  "int option \<Rightarrow> world \<Rightarrow> (exn + (pystr \<times> rat \<times> rat) option) \<times> world" where
  "get_product_details_for_sale product_id = handle_db_error (get_product_details_for_sale_body product_id)"

text \<open>
  \<open>initialize_database\<close> on a file that has just been removed: a connection of its own,
  the empty tables, commit, close.
\<close>

definition initialize_database :: "world \<Rightarrow> world" where
  "initialize_database w =
     (let w1 = get_db_connection w in close_connection (w1\<lparr>store := empty_database\<rparr>))"

text \<open>
  \<open>dangerously_delete_all_data\<close> closes its connection first, removes the file and
  initialises again.
\<close>

definition dangerously_delete_all_data_body :: "world \<Rightarrow> (exn + bool) \<times> world" where
  "dangerously_delete_all_data_body w =
     (let w1 = get_db_connection w;
          w2 = close_connection w1
      in (Inr True, initialize_database w2))"

definition dangerously_delete_all_data :: "world \<Rightarrow> (exn + bool) \<times> world" where
  "dangerously_delete_all_data = handle_db_error dangerously_delete_all_data_body"

section \<open>Notions the properties are stated with\<close>

text \<open>
  The phone format in the words of the specification: an optional leading \<open>+\<close>
  followed by 8 to 15 digits.
\<close>

definition phone_form :: "pystr \<Rightarrow> bool" where
  "phone_form t =
     (let ds = (case t of [] \<Rightarrow> t | c # r \<Rightarrow> if c = 43 then r else t)
      in 8 \<le> length ds \<and> length ds \<le> 15 \<and> list_all is_digit ds)"

text \<open>The number a numeric argument denotes (\<open>None\<close> denotes none; it reads as 0).\<close>

fun number :: "pynum \<Rightarrow> rat" where
  "number NoneV = 0"
| "number (IntV i) = of_int i"
| "number (FloatV q) = q"


text \<open>The total quantity of product \<open>pid\<close> over the line items of a sale.\<close>

definition quantity_sold :: "int \<Rightarrow> line_item list \<Rightarrow> rat" where
  "quantity_sold pid items =
     sum_list (map (\<lambda>item. number (item_quantity item))
                   (filter (\<lambda>item. item_product_id item = Some pid) items))"

text \<open>A product row after the items of a sale have been taken from its stock.\<close>

definition sell :: "line_item list \<Rightarrow> product \<Rightarrow> product" where
  "sell items p = p\<lparr>quantity_in_stock := quantity_in_stock p - quantity_sold (p_id p) items\<rparr>"

text \<open>
  The row ids of the products are the ones AUTOINCREMENT gives out: positive, at most
  the recorded sequence value, and inside the 64-bit range. The empty database satisfies
  this and every operation of the data-access layer keeps it (\<open>product_ids_ok_empty\<close>,
  \<open>product_ids_ok_preserved\<close> below).
\<close>

definition product_ids_ok :: "database \<Rightarrow> bool" where
  "product_ids_ok db \<longleftrightarrow>
     0 \<le> seq_Products db \<and> seq_Products db < 2 ^ 63
     \<and> (\<forall>p \<in> set (Products db). 0 < p_id p \<and> p_id p \<le> seq_Products db)"

subsection \<open>The scenario of the specification\<close>

text \<open>
  A product "Widget" (purchase price 5, selling price 10, stock 0), a purchase of 20,
  a sale of 5 at 10: the worlds before and after each step.
\<close>

definition today :: pystr where
  "today = map of_char ''2025-01-02 10:00:00''"

definition widget :: "rat \<Rightarrow> product" where
  "widget stock =
     \<lparr>p_id = 1, p_name = map of_char ''Widget'', p_description = None,
      p_category = Some (map of_char ''Tools''), p_purchase_price = 5, p_selling_price = 10,
      quantity_in_stock = stock\<rparr>"

definition widgets :: "int \<Rightarrow> line_item" where
  "widgets n = \<lparr>item_product_id = Some 1, item_quantity = IntV n, item_price_at_sale = IntV 10\<rparr>"

definition empty_shop :: world where
  "empty_shop = \<lparr>store = empty_database, open_connections = 0\<rparr>"

definition shop_with_widget :: world where
  "shop_with_widget =
     \<lparr>store = empty_database\<lparr>Products := [widget 0], seq_Products := 1\<rparr>, open_connections = 0\<rparr>"

definition stocked_shop :: world where
  "stocked_shop =
     \<lparr>store = empty_database
        \<lparr>Products := [widget 20],
         Purchases := [\<lparr>pu_id = 1, pu_product_id = 1, pu_quantity = 20, pu_purchase_date = today,
                        pu_cost_per_unit = 5, pu_supplier = None\<rparr>],
         seq_Products := 1, seq_Purchases := 1\<rparr>,
      open_connections = 0\<rparr>"

definition first_sale_item :: sale_item where
  "first_sale_item = \<lparr>si_id = 1, si_sale_id = 1, si_product_id = 1, si_quantity = 5, si_price_at_sale = 10\<rparr>"

definition widget_shop :: world where
  "widget_shop =
     \<lparr>store = empty_database
        \<lparr>Products := [widget 15],
         Purchases := [\<lparr>pu_id = 1, pu_product_id = 1, pu_quantity = 20, pu_purchase_date = today,
                        pu_cost_per_unit = 5, pu_supplier = None\<rparr>],
         Sales := [\<lparr>s_id = 1, s_customer_id = None, s_sale_date = today, s_total_amount = 50\<rparr>],
         SaleItems := [first_sale_item],
         seq_Products := 1, seq_Purchases := 1, seq_Sales := 1, seq_SaleItems := 1\<rparr>,
      open_connections = 0\<rparr>"

section \<open>The phone format\<close>

lemma strip_empty_iff: "strip s = [] \<longleftrightarrow> list_all is_space s"
proof
  assume "strip s = []"
  then have "dropWhile is_space (rev (dropWhile is_space s)) = []"
    by (simp add: strip_def)
  then have "\<forall>c \<in> set (rev (dropWhile is_space s)). is_space c"
    by simp
  then have "\<forall>c \<in> set (dropWhile is_space s). is_space c"
    by simp
  then have "dropWhile is_space s = []"
    by (metis hd_dropWhile hd_in_set)
  then show "list_all is_space s"
    by (simp add: list_all_iff)
next
  assume "list_all is_space s"
  then have d: "dropWhile is_space s = []"
    by (simp add: list_all_iff)
  show "strip s = []"
    unfolding strip_def d by simp
qed

lemma clean_phone_no_newline: "10 \<notin> set (clean_phone s)"
  by (auto simp: clean_phone_def is_separator_def is_space_def)

lemma at_end_no_newline: "10 \<notin> set r \<Longrightarrow> at_end (drop n r) \<longleftrightarrow> length r \<le> n"
proof -
  assume a: "10 \<notin> set r"
  have "drop n r \<noteq> [10]"
  proof
    assume "drop n r = [10]"
    then have "10 \<in> set (drop n r)" by simp
    then have "10 \<in> set r" by (rule in_set_dropD)
    with a show False by simp
  qed
  then show ?thesis by (simp add: at_end_def)
qed

lemma digits_then_end_iff:
  "digits_then_end r \<longleftrightarrow>
     (\<exists>n. 8 \<le> n \<and> n \<le> 15 \<and> n \<le> length r \<and> list_all is_digit (take n r) \<and> at_end (drop n r))"
proof -
  have "\<And>n::nat. n \<in> set [8..<16] \<longleftrightarrow> 8 \<le> n \<and> n \<le> 15"
    unfolding set_upt atLeastLessThan_iff by arith
  then show ?thesis
    unfolding digits_then_end_def list_ex_iff Bex_def by blast
qed

lemma digits_then_end_no_newline:
  assumes "10 \<notin> set r"
  shows "digits_then_end r \<longleftrightarrow> 8 \<le> length r \<and> length r \<le> 15 \<and> list_all is_digit r"
proof
  assume "digits_then_end r"
  then obtain n where n: "8 \<le> n" "n \<le> 15" "n \<le> length r" "list_all is_digit (take n r)"
      "at_end (drop n r)"
    unfolding digits_then_end_iff by blast
  from n(5) assms have "length r \<le> n" by (simp add: at_end_no_newline)
  with n(3) have "n = length r" by simp
  with n show "8 \<le> length r \<and> length r \<le> 15 \<and> list_all is_digit r"
    by simp
next
  assume a: "8 \<le> length r \<and> length r \<le> 15 \<and> list_all is_digit r"
  then have "8 \<le> length r \<and> length r \<le> 15 \<and> length r \<le> length r
      \<and> list_all is_digit (take (length r) r) \<and> at_end (drop (length r) r)"
    by (simp add: at_end_def)
  then show "digits_then_end r"
    unfolding digits_then_end_iff by blast
qed

lemma phone_pattern_match_clean: "phone_pattern_match (clean_phone s) \<longleftrightarrow> phone_form (clean_phone s)"
proof (cases "clean_phone s")
  case Nil
  then show ?thesis
    by (simp add: phone_pattern_match_def phone_form_def digits_then_end_iff)
next
  case (Cons c r)
  with clean_phone_no_newline [of s] have nr: "10 \<notin> set r" and nc: "10 \<notin> set (c # r)"
    by auto
  have plus: "\<not> is_digit 43"
    by (simp add: is_digit_def)
  have F: "phone_form (c # r) \<longleftrightarrow>
      (if c = 43 then 8 \<le> length r \<and> length r \<le> 15 \<and> list_all is_digit r
       else 8 \<le> length (c # r) \<and> length (c # r) \<le> 15 \<and> list_all is_digit (c # r))"
    by (simp add: phone_form_def)
  have P: "phone_pattern_match (c # r) \<longleftrightarrow> (c = 43 \<and> digits_then_end r) \<or> digits_then_end (c # r)"
    by (simp add: phone_pattern_match_def)
  have D: "c = 43 \<Longrightarrow> \<not> list_all is_digit (c # r)"
    using plus by simp
  show ?thesis
    unfolding Cons using F P D digits_then_end_no_newline [OF nr] digits_then_end_no_newline [OF nc]
    by metis
qed

lemma validate_phone_Some:
  "validate_phone (Some s) =
     (if list_all is_space s then Inr (Some s)
      else if phone_form (clean_phone s) then Inr (Some s)
      else Inl (ValidationError Format_telephone_invalide))"
proof -
  have "\<not> list_all is_space s \<Longrightarrow> s \<noteq> []"
    by auto
  then show ?thesis
    by (simp add: validate_phone_def strip_empty_iff phone_pattern_match_clean)
qed

text \<open>
  C7. \<open>validate_phone\<close> accepts \<open>None\<close>, the empty string and a string of whitespace
  only. Any other string is accepted exactly when, with its separators removed, it is an
  optional leading \<open>+\<close> followed by 8 to 15 digits, and is rejected with a validation
  failure otherwise. The separators removed are what the pattern \<open>[\s\-\(\)]\<close> matches:
  the whitespace characters (the space among them), the hyphen and the two
  parentheses. In particular \<open>"123-456-7890"\<close> is accepted and \<open>"abc"\<close> is rejected.
\<close>

theorem validate_phone_accepts_exactly:
  "validate_phone None = Inr None
   \<and> (list_all is_space s \<longrightarrow> validate_phone (Some s) = Inr (Some s))
   \<and> (\<not> list_all is_space s \<longrightarrow>
        validate_phone (Some s) =
          (if phone_form (filter (\<lambda>c. \<not> (is_space c \<or> c = of_char CHR ''-'' \<or> c = of_char CHR ''(''
                                          \<or> c = of_char CHR '')'')) s)
           then Inr (Some s) else Inl (ValidationError Format_telephone_invalide)))
   \<and> validate_phone (Some (map of_char ''123-456-7890'')) = Inr (Some (map of_char ''123-456-7890''))
   \<and> validate_phone (Some (map of_char ''abc'')) = Inl (ValidationError Format_telephone_invalide)"
proof -
  have sep: "filter (\<lambda>c. \<not> (is_space c \<or> c = of_char CHR ''-'' \<or> c = of_char CHR ''(''
                                \<or> c = of_char CHR '')'')) s = clean_phone s"
    by (simp add: clean_phone_def is_separator_def)
  have a: "validate_phone None = Inr None"
    by (simp add: validate_phone_def)
  have b: "list_all is_space s \<longrightarrow> validate_phone (Some s) = Inr (Some s)"
    by (simp add: validate_phone_Some)
  have c: "\<not> list_all is_space s \<longrightarrow>
        validate_phone (Some s) =
          (if phone_form (clean_phone s)
           then Inr (Some s) else Inl (ValidationError Format_telephone_invalide))"
    by (simp add: validate_phone_Some)
  have d: "validate_phone (Some (map of_char ''123-456-7890'')) = Inr (Some (map of_char ''123-456-7890''))"
    by (simp add: validate_phone_Some phone_form_def clean_phone_def is_separator_def is_space_def
        is_digit_def)
  have e: "validate_phone (Some (map of_char ''abc'')) = Inl (ValidationError Format_telephone_invalide)"
    by (simp add: validate_phone_Some phone_form_def clean_phone_def is_separator_def is_space_def
        is_digit_def)
  show ?thesis
    unfolding sep using a b c d e by blast
qed

theorem validate_phone_accepts_exactly_witness:
  "list_all is_space (map of_char ''  '')
   \<and> validate_phone (Some (map of_char ''  '')) = Inr (Some (map of_char ''  ''))
   \<and> \<not> list_all is_space (map of_char ''+213 (555) 12-34-56'')
   \<and> validate_phone (Some (map of_char ''+213 (555) 12-34-56'')) = Inr (Some (map of_char ''+213 (555) 12-34-56''))
   \<and> \<not> list_all is_space (map of_char ''12+345678'')
   \<and> validate_phone (Some (map of_char ''12+345678'')) = Inl (ValidationError Format_telephone_invalide)"
proof -
  have s1: "list_all is_space (map of_char ''  '')"
    by (simp add: is_space_def)
  have s2: "\<not> list_all is_space (map of_char ''+213 (555) 12-34-56'')"
    by (simp add: is_space_def)
  have s3: "\<not> list_all is_space (map of_char ''12+345678'')"
    by (simp add: is_space_def)
  have f2: "phone_form (filter (\<lambda>c. \<not> (is_space c \<or> c = of_char CHR ''-'' \<or> c = of_char CHR ''(''
                \<or> c = of_char CHR '')'')) (map of_char ''+213 (555) 12-34-56''))"
    by (simp add: phone_form_def is_space_def is_digit_def)
  have f3: "\<not> phone_form (filter (\<lambda>c. \<not> (is_space c \<or> c = of_char CHR ''-'' \<or> c = of_char CHR ''(''
                \<or> c = of_char CHR '')'')) (map of_char ''12+345678''))"
    by (simp add: phone_form_def is_space_def is_digit_def)
  show ?thesis
    using validate_phone_accepts_exactly [of "map of_char ''  ''"]
      validate_phone_accepts_exactly [of "map of_char ''+213 (555) 12-34-56''"]
      validate_phone_accepts_exactly [of "map of_char ''12+345678''"]
      s1 s2 s3 f2 f3
    by presburger
qed

section \<open>Connections and the decorator\<close>

lemma close_get [simp]: "close_connection (get_db_connection w) = w"
  by (simp add: close_connection_def get_db_connection_def)

lemma store_get [simp]: "store (get_db_connection w) = store w"
  by (simp add: get_db_connection_def)

lemma close_get_store [simp]: "close_connection (get_db_connection w\<lparr>store := db\<rparr>) = w\<lparr>store := db\<rparr>"
  by (simp add: close_connection_def get_db_connection_def)

lemma handle_db_error_snd: "snd (handle_db_error f w) = snd (f w)"
  by (simp add: handle_db_error_def split: prod.splits sum.splits)


text \<open>
  Every function whose body closes its connection in a \<open>finally\<close> (and
  \<open>dangerously_delete_all_data\<close>, which closes it first) leaves as many connections open
  as it found.
\<close>

lemma connections_released:
  "open_connections (snd (add_customer name phone email address w)) = open_connections w"
  "open_connections (snd (update_customer customer_id name phone email address w)) = open_connections w"
  "open_connections (snd (delete_customer customer_id w)) = open_connections w"
  "open_connections (snd (add_product name description category purchase_price selling_price initial_stock w))
     = open_connections w"
  "open_connections (snd (update_product product_id name description category purchase_price selling_price w))
     = open_connections w"
  "open_connections (snd (delete_product product_id w)) = open_connections w"
  "open_connections (snd (add_purchase product_id quantity cost_per_unit supplier purchase_date_str now w))
     = open_connections w"
  "open_connections (snd (add_sale items customer_id sale_date_str now w)) = open_connections w"
  "open_connections (snd (dangerously_delete_all_data w)) = open_connections w"
  unfolding add_customer_def update_customer_def delete_customer_def add_product_def update_product_def
    delete_product_def add_purchase_def add_sale_def dangerously_delete_all_data_def handle_db_error_snd
    add_customer_body_def update_customer_body_def delete_customer_body_def add_product_body_def
    update_product_body_def delete_product_body_def add_purchase_body_def add_sale_body_def
    dangerously_delete_all_data_body_def initialize_database_def Let_def
  by (auto simp: get_db_connection_def close_connection_def split: sum.splits prod.splits)

text \<open>
  C9. The specification asks that no call path of any data-access function leaves a
  connection unreleased. \<open>get_product_details_for_sale\<close> called with an id outside the 64-bit range
  (\<open>2 ^ 63\<close>) ends with the driver's \<open>OverflowError\<close> and one more open connection than
  before: its \<open>conn.close()\<close> is skipped.
\<close>

theorem get_product_details_leaves_connection_open:
  "get_product_details_for_sale (Some (2 ^ 63)) w
     = (Inl (Driver OverflowError), w\<lparr>open_connections := Suc (open_connections w)\<rparr>)"
  by (simp add: get_product_details_for_sale_def handle_db_error_def get_product_details_for_sale_body_def
      sql_select_product_details_def bindable_id_def bindable_def get_db_connection_def)

section \<open>Sales\<close>

text \<open>
  C4. \<open>add_sale\<close> with an empty item list fails with the validation failure "Cannot
  record a sale with no items" and leaves everything as it was: no connection is
  opened, so no row is written and no stock changes.
\<close>

theorem add_sale_empty_fails:
  "add_sale [] customer_id sale_date_str now w = (Inl (ValidationError No_items), w)"
  by (simp add: add_sale_def handle_db_error_def add_sale_body_def)

subsection \<open>The validation loop\<close>

lemma sql_value_number: "sql_value v = Some q \<Longrightarrow> number v = q"
  by (cases v) auto





subsection \<open>The insert loop\<close>

lemma sql_insert_sale_item_Inr:
  assumes "sql_insert_sale_item db sale_id product_id quantity price = Inr db'"
  shows "\<exists>pid q pr. product_id = Some pid \<and> sql_value quantity = Some q \<and> sql_value price = Some pr \<and> 0 < q
      \<and> Products db' = map (adjust_stock pid (- q)) (Products db)
      \<and> (\<forall>p \<in> set (Products db'). p_id p = pid \<longrightarrow> 0 \<le> quantity_in_stock p)
      \<and> (\<exists>p \<in> set (Products db). p_id p = pid)
      \<and> Customers db' = Customers db \<and> Purchases db' = Purchases db \<and> Sales db' = Sales db"
  using assms unfolding sql_insert_sale_item_def trigger_update_stock_def next_rowid_def Let_def
  by (auto split: if_splits option.splits sum.splits)

lemma quantity_sold_Cons:
  "quantity_sold pid (item # items) =
     (if item_product_id item = Some pid then number (item_quantity item) else 0) + quantity_sold pid items"
  by (simp add: quantity_sold_def)

lemma quantity_sold_unreferenced:
  "\<forall>item \<in> set items. item_product_id item \<noteq> Some pid \<Longrightarrow> quantity_sold pid items = 0"
  by (induction items) (auto simp: quantity_sold_Cons quantity_sold_def)

lemma sell_Cons:
  assumes "item_product_id item = Some pid" and "number (item_quantity item) = q"
  shows "sell (item # items) p = sell items (adjust_stock pid (- q) p)"
  using assms by (simp add: sell_def adjust_stock_def quantity_sold_Cons)

text \<open>
  When the loop goes through, every product row has lost exactly the quantity the items
  take of it, no product an item names has a negative stock, and every item names a
  product.
\<close>

lemma insert_sale_items_Inr:
  "insert_sale_items tx sale_id items = Inr tx' \<Longrightarrow>
     Products tx' = map (sell items) (Products tx)
     \<and> (\<forall>p \<in> set (Products tx'). (\<exists>item \<in> set items. item_product_id item = Some (p_id p))
                                    \<longrightarrow> 0 \<le> quantity_in_stock p)
     \<and> (\<forall>item \<in> set items. \<exists>p \<in> set (Products tx). item_product_id item = Some (p_id p))
     \<and> Customers tx' = Customers tx \<and> Purchases tx' = Purchases tx \<and> Sales tx' = Sales tx"
proof (induction items arbitrary: tx)
  case Nil
  then show ?case by (simp add: sell_def quantity_sold_def)
next
  case (Cons item items)
  from Cons.prems obtain tx1 where
    first: "sql_insert_sale_item tx sale_id (item_product_id item) (item_quantity item)
              (item_price_at_sale item) = Inr tx1"
    and rest: "insert_sale_items tx1 sale_id items = Inr tx'"
    by (auto split: sum.splits)
  from sql_insert_sale_item_Inr [OF first] obtain pid q pr where
    pid: "item_product_id item = Some pid" and q: "sql_value (item_quantity item) = Some q" and
    P1: "Products tx1 = map (adjust_stock pid (- q)) (Products tx)" and
    nn: "\<forall>p \<in> set (Products tx1). p_id p = pid \<longrightarrow> 0 \<le> quantity_in_stock p" and
    ex: "\<exists>p \<in> set (Products tx). p_id p = pid" and
    fr: "Customers tx1 = Customers tx" "Purchases tx1 = Purchases tx" "Sales tx1 = Sales tx"
    by blast
  note IH = Cons.IH [OF rest]
  have nq: "number (item_quantity item) = q"
    using q by (rule sql_value_number)
  have ids: "\<And>p. p_id (adjust_stock pid (- q) p) = p_id p"
    by (simp add: adjust_stock_def)
  have A: "Products tx' = map (sell (item # items)) (Products tx)"
    using IH P1 sell_Cons [OF pid nq] by (simp add: comp_def)
  have B: "0 \<le> quantity_in_stock p'"
    if p': "p' \<in> set (Products tx')"
      and r: "\<exists>it \<in> set (item # items). item_product_id it = Some (p_id p')" for p'
  proof (cases "\<exists>it \<in> set items. item_product_id it = Some (p_id p')")
    case True
    with IH p' show ?thesis by blast
  next
    case False
    with r pid have e: "p_id p' = pid" by auto
    from False have z: "quantity_sold (p_id p') items = 0"
      by (intro quantity_sold_unreferenced) auto
    from p' IH obtain p1 where p1: "p1 \<in> set (Products tx1)" "p' = sell items p1"
      by auto
    then have "p_id p1 = pid"
      using e by (simp add: sell_def)
    with nn p1 have "0 \<le> quantity_in_stock p1" by blast
    moreover have "quantity_in_stock p' = quantity_in_stock p1"
      using p1(2) z by (simp add: sell_def)
    ultimately show ?thesis by simp
  qed
  have C: "\<forall>it \<in> set (item # items). \<exists>p \<in> set (Products tx). item_product_id it = Some (p_id p)"
  proof
    fix it assume "it \<in> set (item # items)"
    then consider "it = item" | "it \<in> set items" by auto
    then show "\<exists>p \<in> set (Products tx). item_product_id it = Some (p_id p)"
    proof cases
      case 1
      with ex pid show ?thesis by auto
    next
      case 2
      with IH obtain p1 where "p1 \<in> set (Products tx1)" "item_product_id it = Some (p_id p1)"
        by blast
      then show ?thesis
        unfolding P1 using ids by auto
    qed
  qed
  from A B C IH fr show ?case by simp
qed

subsection \<open>The transaction\<close>

lemma sql_insert_sale_Inr:
  assumes "sql_insert_sale db customer_id sale_date total_amount = Inr (tx, sale_id)"
  shows "Sales tx = Sales db @ [\<lparr>s_id = sale_id, s_customer_id = customer_id, s_sale_date = sale_date,
                                  s_total_amount = total_amount\<rparr>]
       \<and> Products tx = Products db \<and> Customers tx = Customers db \<and> Purchases tx = Purchases db
       \<and> SaleItems tx = SaleItems db"
  using assms unfolding sql_insert_sale_def next_rowid_def
  by (auto split: if_splits sum.splits)

lemma sale_transaction_Inr:
  assumes "sale_transaction db items customer_id sale_date total_amount = Inr (tx, sale_id)"
  shows "Sales tx = Sales db @ [\<lparr>s_id = sale_id, s_customer_id = customer_id, s_sale_date = sale_date,
                                  s_total_amount = total_amount\<rparr>]
       \<and> Products tx = map (sell items) (Products db)
       \<and> (\<forall>p \<in> set (Products tx). (\<exists>item \<in> set items. item_product_id item = Some (p_id p))
                                    \<longrightarrow> 0 \<le> quantity_in_stock p)
       \<and> (\<forall>item \<in> set items. \<exists>p \<in> set (Products db). item_product_id item = Some (p_id p))
       \<and> Customers tx = Customers db \<and> Purchases tx = Purchases db"
proof -
  from assms obtain tx0 where
    s: "sql_insert_sale db customer_id sale_date total_amount = Inr (tx0, sale_id)" and
    i: "insert_sale_items tx0 sale_id items = Inr tx"
    unfolding sale_transaction_def by (auto split: sum.splits prod.splits if_splits)
  from sql_insert_sale_Inr [OF s] insert_sale_items_Inr [OF i] show ?thesis
    by simp
qed



subsection \<open>The scenario\<close>

lemmas scenario_defs =
  empty_shop_def shop_with_widget_def stocked_shop_def widget_shop_def widget_def widgets_def
  first_sale_item_def empty_database_def

lemmas validation_defs =
  validate_required_def of_id_def of_text_def strip_def is_space_def validate_numeric_def
  validate_integer_def py_int_def validate_product_data_def

lemma scenario_add_product:
  "add_product (Some (map of_char ''Widget'')) None (Some (map of_char ''Tools'')) (IntV 5) (IntV 10) (IntV 0)
     empty_shop = (Inr 1, shop_with_widget)"
  by (simp add: add_product_def handle_db_error_def add_product_body_def validation_defs
      sql_insert_product_def bindable_id_def bindable_def name_taken_def next_rowid_def scenario_defs)

lemma scenario_add_purchase:
  "add_purchase (Some 1) (IntV 20) (IntV 5) None None today shop_with_widget = (Inr 1, stocked_shop)"
  by (simp add: add_purchase_def handle_db_error_def add_purchase_body_def validation_defs
      sql_insert_purchase_def bindable_id_def bindable_def next_rowid_def trigger_update_stock_def
      adjust_stock_def scenario_defs)


lemma scenario_oversell:
  "add_sale [widgets 100] None None today widget_shop
     = (Inl (DatabaseError (Sale_recording_failed (IntegrityError CHECK_constraint))), widget_shop)"
  by (simp add: add_sale_def handle_db_error_def add_sale_body_def validation_defs sale_transaction_def
      sql_insert_sale_def sql_insert_sale_item_def bindable_id_def bindable_def next_rowid_def
      trigger_update_stock_def adjust_stock_def scenario_defs)

subsection \<open>The total of a sale\<close>



subsection \<open>Stock after a purchase and after a sale\<close>

lemma sql_insert_purchase_Inr:
  assumes "sql_insert_purchase db product_id quantity purchase_date cost_per_unit supplier
             = Inr (db', purchase_id)"
  shows "\<exists>pid. product_id = Some pid \<and> (\<exists>p \<in> set (Products db). p_id p = pid)
       \<and> Products db' = map (adjust_stock pid quantity) (Products db)"
  using assms unfolding sql_insert_purchase_def trigger_update_stock_def next_rowid_def Let_def
  by (auto split: if_splits option.splits sum.splits)




subsection \<open>Rollback of a sale that oversells\<close>



section \<open>Purchases\<close>

text \<open>
  C5. The specification asks that \<open>add_purchase\<close> rejects a quantity that is not an
  integer of at least 1. In the world of the scenario (Widget, stock 15), \<open>add_purchase\<close> with the
  quantity 2.5 passes validation, returns the id of a new purchase row, and the stock
  becomes 17.5: the quantity goes through \<open>validate_numeric\<close>, which does not ask for an
  integer.
\<close>

theorem add_purchase_accepts_fraction:
  "add_purchase (Some 1) (FloatV (5 / 2)) (IntV 5) None None today widget_shop =
     (Inr 2,
      widget_shop\<lparr>store := (store widget_shop)
        \<lparr>Products := [widget (35 / 2)],
         Purchases := Purchases (store widget_shop) @
           [\<lparr>pu_id = 2, pu_product_id = 1, pu_quantity = 5 / 2, pu_purchase_date = today,
             pu_cost_per_unit = 5, pu_supplier = None\<rparr>],
         seq_Purchases := 2\<rparr>\<rparr>)"
  by (simp add: add_purchase_def handle_db_error_def add_purchase_body_def validation_defs
      sql_insert_purchase_def bindable_id_def bindable_def next_rowid_def trigger_update_stock_def
      adjust_stock_def scenario_defs)

section \<open>Products\<close>

subsection \<open>Row ids\<close>

lemma product_ids_ok_empty: "product_ids_ok empty_database"
  by (simp add: product_ids_ok_def empty_database_def)

lemma product_ids_ok_bindable:
  "product_ids_ok db \<Longrightarrow> p \<in> set (Products db) \<Longrightarrow> bindable (p_id p) \<and> p_id p \<noteq> 0"
  by (fastforce simp: product_ids_ok_def bindable_def)

lemma product_ids_ok_subset:
  assumes "product_ids_ok db" and "seq_Products db' = seq_Products db"
    and "p_id ` set (Products db') \<subseteq> p_id ` set (Products db)"
  shows "product_ids_ok db'"
  using assms unfolding product_ids_ok_def by (metis (no_types, lifting) image_iff subsetD)

lemma sql_insert_product_ids_ok:
  assumes "sql_insert_product db n d c pp sp st = Inr (db', i)" and "product_ids_ok db"
  shows "product_ids_ok db'"
  using assms unfolding sql_insert_product_def next_rowid_def product_ids_ok_def
  by (auto split: if_splits option.splits sum.splits) force+

lemma sql_update_product_frame:
  assumes "sql_update_product db name description category purchase_price selling_price product_id
             = Inr (db', n)"
  shows "map quantity_in_stock (Products db') = map quantity_in_stock (Products db)
       \<and> map p_id (Products db') = map p_id (Products db)
       \<and> Customers db' = Customers db \<and> Purchases db' = Purchases db
       \<and> Sales db' = Sales db \<and> SaleItems db' = SaleItems db
       \<and> seq_Products db' = seq_Products db"
proof -
  have m: "\<And>f ps. map quantity_in_stock
               (map (\<lambda>p. if Some (p_id p) = product_id
                         then p\<lparr>p_name := f, p_description := description, p_category := category,
                                p_purchase_price := purchase_price, p_selling_price := selling_price\<rparr>
                         else p) ps) = map quantity_in_stock ps"
    by (simp add: comp_def if_distrib cong: if_cong)
  have i: "\<And>f ps. map p_id
               (map (\<lambda>p. if Some (p_id p) = product_id
                         then p\<lparr>p_name := f, p_description := description, p_category := category,
                                p_purchase_price := purchase_price, p_selling_price := selling_price\<rparr>
                         else p) ps) = map p_id ps"
    by (simp add: comp_def if_distrib cong: if_cong)
  from assms show ?thesis
    unfolding sql_update_product_def Let_def
    by (auto split: if_splits option.splits simp: m i)
qed

lemma sql_update_product_ids_ok:
  assumes "sql_update_product db n d c pp sp i = Inr (db', k)" and "product_ids_ok db"
  shows "product_ids_ok db'"
proof -
  from sql_update_product_frame [OF assms(1)] have
    "map p_id (Products db') = map p_id (Products db)" and s: "seq_Products db' = seq_Products db"
    by blast+
  then have "p_id ` set (Products db') = p_id ` set (Products db)"
    by (metis set_map)
  with s show ?thesis
    using product_ids_ok_subset [OF assms(2)] by simp
qed

lemma sql_delete_product_ids_ok:
  assumes "sql_delete_product db i = Inr (db', k)" and "product_ids_ok db"
  shows "product_ids_ok db'"
  using assms unfolding sql_delete_product_def Let_def product_ids_ok_def
  by (auto split: if_splits)

lemma adjust_stock_ids: "p_id ` set (map (adjust_stock pid q) ps) = p_id ` set ps"
proof -
  have "map p_id (map (adjust_stock pid q) ps) = map p_id ps"
    by (induction ps) (simp_all add: adjust_stock_def)
  then show ?thesis by (metis set_map)
qed

lemma sql_insert_purchase_ids_ok:
  assumes "sql_insert_purchase db i q d c s = Inr (db', k)" and "product_ids_ok db"
  shows "product_ids_ok db'"
proof -
  from sql_insert_purchase_Inr [OF assms(1)] obtain pid where
    "Products db' = map (adjust_stock pid q) (Products db)" by blast
  then have "p_id ` set (Products db') = p_id ` set (Products db)"
    by (simp only: adjust_stock_ids)
  moreover have "seq_Products db' = seq_Products db"
    using assms(1) unfolding sql_insert_purchase_def trigger_update_stock_def Let_def
    by (auto split: if_splits option.splits sum.splits)
  ultimately show ?thesis
    using product_ids_ok_subset [OF assms(2)] by simp
qed

lemma sql_insert_sale_item_seq:
  "sql_insert_sale_item db sid pid q pr = Inr db' \<Longrightarrow> seq_Products db' = seq_Products db"
  unfolding sql_insert_sale_item_def trigger_update_stock_def Let_def
  by (auto split: if_splits option.splits sum.splits)

lemma insert_sale_items_seq:
  "insert_sale_items tx sid items = Inr tx' \<Longrightarrow> seq_Products tx' = seq_Products tx"
  by (induction items arbitrary: tx) (auto split: sum.splits dest: sql_insert_sale_item_seq)

lemma sell_ids: "p_id ` set (map (sell items) ps) = p_id ` set ps"
proof -
  have "map p_id (map (sell items) ps) = map p_id ps"
    by (induction ps) (simp_all add: sell_def)
  then show ?thesis by (metis set_map)
qed

lemma sale_transaction_ids_ok:
  assumes "sale_transaction db items c d t = Inr (tx, sid)" and "product_ids_ok db"
  shows "product_ids_ok tx"
proof -
  from sale_transaction_Inr [OF assms(1)] have "Products tx = map (sell items) (Products db)"
    by blast
  then have "p_id ` set (Products tx) = p_id ` set (Products db)"
    by (simp only: sell_ids)
  moreover have "seq_Products tx = seq_Products db"
    using assms(1) unfolding sale_transaction_def sql_insert_sale_def next_rowid_def
    by (auto split: if_splits sum.splits prod.splits dest!: insert_sale_items_seq)
  ultimately show ?thesis
    using product_ids_ok_subset [OF assms(2)] by simp
qed

lemma sql_customer_statements_ids_ok:
  "sql_insert_customer db n a ph e = Inr (db', i) \<Longrightarrow> product_ids_ok db \<Longrightarrow> product_ids_ok db'"
  "sql_update_customer db n a ph e c = Inr (db', k) \<Longrightarrow> product_ids_ok db \<Longrightarrow> product_ids_ok db'"
  "sql_delete_customer db c = Inr (db', k) \<Longrightarrow> product_ids_ok db \<Longrightarrow> product_ids_ok db'"
  unfolding sql_insert_customer_def sql_update_customer_def sql_delete_customer_def next_rowid_def
    product_ids_ok_def Let_def
  by (auto split: if_splits option.splits sum.splits)

text \<open>Every operation that writes to the database keeps the row ids as AUTOINCREMENT gives them.\<close>

lemma product_ids_ok_preserved:
  assumes "product_ids_ok (store w)"
  shows "product_ids_ok (store (snd (add_product name description category purchase_price selling_price
                                       initial_stock w)))"
    and "product_ids_ok (store (snd (update_product product_id name description category purchase_price
                                       selling_price w)))"
    and "product_ids_ok (store (snd (delete_product product_id w)))"
    and "product_ids_ok (store (snd (add_purchase product_id quantity cost_per_unit supplier
                                       purchase_date_str now w)))"
    and "product_ids_ok (store (snd (add_sale items customer_id sale_date_str now w)))"
    and "product_ids_ok (store (snd (dangerously_delete_all_data w)))"
    and "product_ids_ok (store (snd (add_customer name phone email address w)))"
    and "product_ids_ok (store (snd (update_customer customer_id name phone email address w)))"
    and "product_ids_ok (store (snd (delete_customer customer_id w)))"
proof -
  show "product_ids_ok (store (snd (add_product name description category purchase_price selling_price
                                       initial_stock w)))"
    using assms unfolding add_product_def handle_db_error_snd add_product_body_def Let_def
    by (auto split: sum.splits prod.splits dest: sql_insert_product_ids_ok)
  show "product_ids_ok (store (snd (update_product product_id name description category purchase_price
                                       selling_price w)))"
    using assms unfolding update_product_def handle_db_error_snd update_product_body_def Let_def
    by (auto split: sum.splits prod.splits dest: sql_update_product_ids_ok)
  show "product_ids_ok (store (snd (delete_product product_id w)))"
    using assms unfolding delete_product_def handle_db_error_snd delete_product_body_def Let_def
    by (auto split: sum.splits prod.splits dest: sql_delete_product_ids_ok)
  show "product_ids_ok (store (snd (add_purchase product_id quantity cost_per_unit supplier
                                       purchase_date_str now w)))"
    using assms unfolding add_purchase_def handle_db_error_snd add_purchase_body_def Let_def
    by (auto split: sum.splits prod.splits dest: sql_insert_purchase_ids_ok)
  show "product_ids_ok (store (snd (add_sale items customer_id sale_date_str now w)))"
    using assms unfolding add_sale_def handle_db_error_snd add_sale_body_def Let_def
    by (auto split: sum.splits prod.splits dest: sale_transaction_ids_ok)
  show "product_ids_ok (store (snd (dangerously_delete_all_data w)))"
    by (simp add: dangerously_delete_all_data_def handle_db_error_snd dangerously_delete_all_data_body_def
        initialize_database_def product_ids_ok_empty close_connection_def get_db_connection_def)
  show "product_ids_ok (store (snd (add_customer name phone email address w)))"
    using assms unfolding add_customer_def handle_db_error_snd add_customer_body_def Let_def
    by (auto split: sum.splits prod.splits dest: sql_customer_statements_ids_ok)
  show "product_ids_ok (store (snd (update_customer customer_id name phone email address w)))"
    using assms unfolding update_customer_def handle_db_error_snd update_customer_body_def Let_def
    by (auto split: sum.splits prod.splits dest: sql_customer_statements_ids_ok)
  show "product_ids_ok (store (snd (delete_customer customer_id w)))"
    using assms unfolding delete_customer_def handle_db_error_snd delete_customer_body_def Let_def
    by (auto split: sum.splits prod.splits dest: sql_customer_statements_ids_ok)
qed

subsection \<open>Deleting a product that a sale item refers to\<close>

text \<open>
  C6. In a database whose product row ids are the ones AUTOINCREMENT gives out, let a
  SaleItems row refer to a product row. Then \<open>delete_product\<close> on that product's id ends
  with the \<open>DatabaseError\<close> "Impossible de supprimer cet element car il est reference
  ailleurs" (the translation \<open>handle_db_error\<close> gives the foreign-key failure, not the
  driver's \<open>IntegrityError\<close>), the world is as before, and the product row is still
  there.
\<close>

theorem delete_referenced_product_refused:
  assumes "product_ids_ok (store w)"
    and "p \<in> set (Products (store w))"
    and "si \<in> set (SaleItems (store w))"
    and "si_product_id si = p_id p"
  shows "delete_product (Some (p_id p)) w = (Inl (DatabaseError Reference_ailleurs), w)
         \<and> p \<in> set (Products (store (snd (delete_product (Some (p_id p)) w))))"
proof -
  from assms(1,2) have b: "bindable (p_id p)" and nz: "p_id p \<noteq> 0"
    using product_ids_ok_bindable by blast+
  have hits: "filter (\<lambda>q. p_id q = p_id p) (Products (store w)) \<noteq> []"
    using assms(2) by (auto simp: filter_empty_conv)
  have ref: "\<exists>si \<in> set (SaleItems (store w)). si_product_id si = p_id p"
    using assms(3,4) by blast
  have "sql_delete_product (store w) (Some (p_id p)) = Inl (IntegrityError FOREIGN_KEY_constraint)"
    using b hits ref by (simp add: sql_delete_product_def bindable_id_def)
  then have "delete_product (Some (p_id p)) w = (Inl (DatabaseError Reference_ailleurs), w)"
    using nz by (simp add: delete_product_def handle_db_error_def delete_product_body_def
        validate_required_def of_id_def)
  then show ?thesis
    using assms(2) by simp
qed

theorem delete_referenced_product_refused_witness:
  "product_ids_ok (store widget_shop)
   \<and> widget 15 \<in> set (Products (store widget_shop))
   \<and> first_sale_item \<in> set (SaleItems (store widget_shop))
   \<and> si_product_id first_sale_item = p_id (widget 15)
   \<and> delete_product (Some 1) widget_shop = (Inl (DatabaseError Reference_ailleurs), widget_shop)"
proof -
  have h1: "product_ids_ok (store widget_shop)"
    by (simp add: product_ids_ok_def scenario_defs)
  have h2: "widget 15 \<in> set (Products (store widget_shop))"
    by (simp add: widget_shop_def)
  have h3: "first_sale_item \<in> set (SaleItems (store widget_shop))"
    by (simp add: widget_shop_def)
  have h4: "si_product_id first_sale_item = p_id (widget 15)"
    by (simp add: first_sale_item_def widget_def)
  have i: "p_id (widget 15) = 1"
    by (simp add: widget_def)
  from delete_referenced_product_refused [OF h1 h2 h3 h4] h1 h2 h3 h4 show ?thesis
    unfolding i by blast
qed

subsection \<open>What \<open>update_product\<close> leaves alone\<close>

text \<open>
  C8. Whatever \<open>update_product\<close> returns (in particular when it succeeds), the product
  rows afterwards have, row by row, the same \<open>quantity_in_stock\<close> and the same id as
  before, and the four other tables are as before: of a product only the name, the
  description, the category and the two prices can have changed.
\<close>

theorem update_product_keeps_stock:
  assumes "update_product product_id name description category purchase_price selling_price w = (r, w')"
  shows "map quantity_in_stock (Products (store w')) = map quantity_in_stock (Products (store w))
       \<and> map p_id (Products (store w')) = map p_id (Products (store w))
       \<and> Customers (store w') = Customers (store w) \<and> Purchases (store w') = Purchases (store w)
       \<and> Sales (store w') = Sales (store w) \<and> SaleItems (store w') = SaleItems (store w)"
proof -
  have "w' = snd (update_product_body product_id name description category purchase_price selling_price w)"
    using assms
      handle_db_error_snd [of "update_product_body product_id name description category purchase_price
                                 selling_price" w]
    by (simp add: update_product_def)
  then consider "w' = w"
    | db n a b c where "sql_update_product (store w) a description category b c product_id = Inr (db, n)"
        "w' = w\<lparr>store := db\<rparr>"
    unfolding update_product_body_def Let_def
    by (auto split: sum.splits prod.splits if_splits)
  then show ?thesis
  proof cases
    case 1
    then show ?thesis by simp
  next
    case 2
    from sql_update_product_frame [OF 2(1)] 2(2) show ?thesis by simp
  qed
qed

theorem update_product_keeps_stock_witness:
  "update_product (Some 1) (Some (map of_char ''Gadget'')) None (Some (map of_char ''Tools'')) (IntV 6)
     (FloatV (25 / 2)) widget_shop
     = (Inr True,
        widget_shop\<lparr>store := (store widget_shop)
          \<lparr>Products := [(widget 15)\<lparr>p_name := map of_char ''Gadget'', p_purchase_price := 6,
                                      p_selling_price := 25 / 2\<rparr>]\<rparr>\<rparr>)
   \<and> map quantity_in_stock
       (Products (store (widget_shop\<lparr>store := (store widget_shop)
          \<lparr>Products := [(widget 15)\<lparr>p_name := map of_char ''Gadget'', p_purchase_price := 6,
                                      p_selling_price := 25 / 2\<rparr>]\<rparr>\<rparr>)))
     = map quantity_in_stock (Products (store widget_shop))"
proof -
  have run: "update_product (Some 1) (Some (map of_char ''Gadget'')) None (Some (map of_char ''Tools'')) (IntV 6)
     (FloatV (25 / 2)) widget_shop
     = (Inr True,
        widget_shop\<lparr>store := (store widget_shop)
          \<lparr>Products := [(widget 15)\<lparr>p_name := map of_char ''Gadget'', p_purchase_price := 6,
                                      p_selling_price := 25 / 2\<rparr>]\<rparr>\<rparr>)"
    by (simp add: update_product_def handle_db_error_def update_product_body_def validation_defs
        sql_update_product_def bindable_id_def bindable_def name_taken_def scenario_defs)
  from update_product_keeps_stock [OF run] run show ?thesis
    by blast
qed

section \<open>Deleting or updating a row that is not there\<close>








end
